theory Spec2Isabelle
  imports Main "HOL-Library.Word" "HOL-Library.AList"
begin

unbundle bit_operations_syntax

section \<open>Machine types\<close>

type_synonym u8 = "8 word"
type_synonym u16 = "16 word"
type_synonym u32 = "32 word"

text \<open>A C \<open>signed int\<close>: a 32-bit word, read in two's complement with \<open>sint\<close>.\<close>

type_synonym s32 = "32 word"

section \<open>Sequencer events (rtpmidid.cpp, ALSA \<open>snd_seq_event_t\<close>)\<close>

text \<open>
  \<open>snd_seq_event_t\<close> is a tagged union: the field \<open>type\<close> selects which member of
  \<open>data\<close> is meaningful. The note events carry \<open>data.note\<close> (channel, note, velocity:
  all \<open>unsigned char\<close>), the control events carry \<open>data.control\<close> (channel:
  \<open>unsigned char\<close>, param: \<open>unsigned int\<close>, value: \<open>signed int\<close>). Only the event types
  that the daemon reads or writes are distinguished; every other type is
  \<open>SND_SEQ_EVENT_OTHER\<close>.
\<close>

datatype snd_seq_event =
    SND_SEQ_EVENT_NOTE u8 u8 u8
  | SND_SEQ_EVENT_NOTEON u8 u8 u8
  | SND_SEQ_EVENT_NOTEOFF u8 u8 u8
  | SND_SEQ_EVENT_CONTROLLER u8 u32 s32
  | SND_SEQ_EVENT_PGMCHANGE u8 s32
  | SND_SEQ_EVENT_CHANPRESS u8 s32
  | SND_SEQ_EVENT_PITCHBEND u8 s32
  | SND_SEQ_EVENT_OTHER nat

section \<open>The parse buffer\<close>

text \<open>
  \<open>parse_buffer_t\<close> is a window \<open>start .. end\<close> over a byte array with a cursor
  \<open>position\<close>. The window is the list \<open>bytes\<close>, \<open>position\<close> is an index into it, and
  \<open>end\<close> is its length.
\<close>

record parse_buffer_t =
  bytes :: "u8 list"
  position :: nat

text \<open>
  The exceptions that the modelled code can meet: a read beyond the parse buffer, the
  JSON library's parse and type errors, the two exceptions of \<open>std::stoi\<close>, and any
  other \<open>std::exception\<close> with its message.
\<close>

datatype exn =
    buffer_exception
  | json_parse_error
  | json_type_error
  | invalid_argument
  | out_of_range
  | other_exception string

text \<open>
  Modelled from the spec: \<open>parse_buffer_t::read_uint8\<close> is declared outside the files at
  hand. The decoder "fails with MalformedPayload when a command truncates": a read at or
  beyond \<open>end\<close> raises, any other read returns the byte under the cursor and advances the
  cursor by one.
\<close>

definition read_uint8 :: "parse_buffer_t \<Rightarrow> exn + (u8 \<times> parse_buffer_t)" where
  "read_uint8 pb =
     (if position pb < length (bytes pb)
      then Inr (bytes pb ! position pb, pb\<lparr>position := position pb + 1\<rparr>)
      else Inl buffer_exception)"

section \<open>Decoding the RTP-MIDI command stream (\<open>rtpmidid::recv_rtpmidi_event\<close>)\<close>

text \<open>Two consecutive \<open>read_uint8\<close> calls, in the order the source makes them.\<close>

definition read2 :: "parse_buffer_t \<Rightarrow> exn + (u8 \<times> u8 \<times> parse_buffer_t)" where
  "read2 pb =
     (case read_uint8 pb of
        Inl e \<Rightarrow> Inl e
      | Inr (a, pb1) \<Rightarrow>
          (case read_uint8 pb1 of
             Inl e \<Rightarrow> Inl e
           | Inr (b, pb2) \<Rightarrow> Inr (a, b, pb2)))"

text \<open>
  The body of the \<open>switch (type)\<close>. \<open>Inr (Some ev, pb')\<close> is an event that reaches
  \<open>snd_seq_event_output_direct\<close>; \<open>Inr (None, pb')\<close> is the \<open>default:\<close> branch, which
  warns and returns; \<open>Inl e\<close> is an exception raised by a read.

  The ALSA setters are macros built from the comma operator, so their arguments are
  evaluated left to right: the first read is the first data byte.

  \<open>case 0xD0\<close> has no \<open>break\<close>: after \<open>snd_seq_ev_set_chanpress\<close> has read one byte,
  control falls into \<open>case 0xE0\<close>, which clears the event again, reads two more bytes
  and sets a pitch bend.
\<close>

definition pitch_bend_of :: "u8 \<Rightarrow> u8 \<Rightarrow> s32" where
  "pitch_bend_of lsb msb = (push_bit 7 (ucast msb) + ucast lsb) - 8192"

definition case_0xE0 :: "u8 \<Rightarrow> parse_buffer_t \<Rightarrow> exn + (snd_seq_event option \<times> parse_buffer_t)" where
  "case_0xE0 current_command pb =
     (case read2 pb of
        Inl e \<Rightarrow> Inl e
      | Inr (lsb, msb, pb') \<Rightarrow>
          Inr (Some (SND_SEQ_EVENT_PITCHBEND (current_command AND 0x0F) (pitch_bend_of lsb msb)), pb'))"

definition switch_type :: "u8 \<Rightarrow> parse_buffer_t \<Rightarrow> exn + (snd_seq_event option \<times> parse_buffer_t)" where
  "switch_type current_command pb =
     (let type = current_command AND 0xF0; ch = current_command AND 0x0F in
      if type = 0xB0 then
        (case read2 pb of
           Inl e \<Rightarrow> Inl e
         | Inr (cc, val, pb') \<Rightarrow> Inr (Some (SND_SEQ_EVENT_CONTROLLER ch (ucast cc) (ucast val)), pb'))
      else if type = 0x90 then
        (case read2 pb of
           Inl e \<Rightarrow> Inl e
         | Inr (key, vel, pb') \<Rightarrow> Inr (Some (SND_SEQ_EVENT_NOTEON ch key vel), pb'))
      else if type = 0x80 then
        (case read2 pb of
           Inl e \<Rightarrow> Inl e
         | Inr (key, vel, pb') \<Rightarrow> Inr (Some (SND_SEQ_EVENT_NOTEOFF ch key vel), pb'))
      else if type = 0xC0 then
        (case read_uint8 pb of
           Inl e \<Rightarrow> Inl e
         | Inr (val, pb') \<Rightarrow> Inr (Some (SND_SEQ_EVENT_PGMCHANGE ch (ucast val)), pb'))
      else if type = 0xD0 then
        (case read_uint8 pb of
           Inl e \<Rightarrow> Inl e
         | Inr (val, pb') \<Rightarrow> case_0xE0 current_command pb')
      else if type = 0xE0 then case_0xE0 current_command pb
      else Inr (None, pb))"

text \<open>
  The head of the loop body: read one byte; a status byte (bit 7 set) replaces the
  current command, a data byte is put back (\<open>position--\<close>) and the previous command is
  reused (running status).
\<close>

definition next_command :: "u8 \<Rightarrow> parse_buffer_t \<Rightarrow> exn + (u8 \<times> parse_buffer_t)" where
  "next_command current_command pb =
     (case read_uint8 pb of
        Inl e \<Rightarrow> Inl e
      | Inr (maybe_next_command, pb') \<Rightarrow>
          if maybe_next_command AND 0x80 \<noteq> 0
          then Inr (maybe_next_command, pb')
          else Inr (current_command, pb'\<lparr>position := position pb' - 1\<rparr>))"

definition loop_body :: "u8 \<Rightarrow> parse_buffer_t \<Rightarrow> exn + (u8 \<times> snd_seq_event option \<times> parse_buffer_t)" where
  "loop_body current_command pb =
     (case next_command current_command pb of
        Inl e \<Rightarrow> Inl e
      | Inr (cmd, pb1) \<Rightarrow>
          (case switch_type cmd pb1 of
             Inl e \<Rightarrow> Inl e
           | Inr (ev, pb2) \<Rightarrow> Inr (cmd, ev, pb2)))"

text \<open>How a call of \<open>recv_rtpmidi_event\<close> ends.\<close>

datatype outcome =
    Finished
  | Not_implemented u8
  | Raised exn

text \<open>
  The \<open>while\<close> loop. The result is the list of events handed to
  \<open>snd_seq_event_output_direct\<close>, each with the source port set by
  \<open>snd_seq_ev_set_source\<close>, in the order of emission, and how the call ended. Events
  emitted before a warning or an exception stay emitted.
\<close>

function while_loop :: "int \<Rightarrow> u8 \<Rightarrow> parse_buffer_t \<Rightarrow> (int \<times> snd_seq_event) list \<times> outcome" where
  "while_loop port current_command pb =
     (if position pb < length (bytes pb) then
        (case loop_body current_command pb of
           Inl e \<Rightarrow> ([], Raised e)
         | Inr (cmd, None, pb') \<Rightarrow> ([], Not_implemented (cmd AND 0xF0))
         | Inr (cmd, Some ev, pb') \<Rightarrow>
             (case while_loop port cmd pb' of
                (evs, out) \<Rightarrow> ((port, ev) # evs, out)))
      else ([], Finished))"
  by pat_completeness auto

lemma read_uint8_advances:
  "read_uint8 pb = Inr (b, pb') \<Longrightarrow> bytes pb' = bytes pb \<and> position pb' = position pb + 1"
  by (auto simp: read_uint8_def split: if_splits)

lemma read2_advances:
  "read2 pb = Inr (a, b, pb') \<Longrightarrow> bytes pb' = bytes pb \<and> position pb' = position pb + 2"
  by (auto simp: read2_def split: sum.splits dest!: read_uint8_advances)

lemma case_0xE0_advances:
  "case_0xE0 c pb = Inr (ev, pb') \<Longrightarrow> bytes pb' = bytes pb \<and> position pb' = position pb + 2"
  by (auto simp: case_0xE0_def split: sum.splits dest!: read2_advances)

lemma switch_type_advances:
  "switch_type c pb = Inr (Some ev, pb') \<Longrightarrow> bytes pb' = bytes pb \<and> position pb < position pb'"
  by (auto simp: switch_type_def Let_def split: if_splits sum.splits
      dest!: read2_advances read_uint8_advances case_0xE0_advances)

lemma next_command_keeps:
  "next_command c pb = Inr (cmd, pb') \<Longrightarrow> bytes pb' = bytes pb \<and> position pb \<le> position pb'"
  by (auto simp: next_command_def split: sum.splits if_splits dest!: read_uint8_advances)

lemma loop_body_advances:
  "loop_body c pb = Inr (cmd, Some ev, pb') \<Longrightarrow> bytes pb' = bytes pb \<and> position pb < position pb'"
  by (fastforce simp: loop_body_def split: sum.splits
      dest!: next_command_keeps switch_type_advances)

termination while_loop
proof (relation "measure (\<lambda>(port, c, pb). length (bytes pb) - position pb)", goal_cases)
  case 1
  show ?case by simp
next
  case (2 port current_command pb x2 cmd x2a ev_opt pb' ev)
  then have "bytes pb' = bytes pb \<and> position pb < position pb'"
    using loop_body_advances [of current_command pb cmd ev pb'] by auto
  with 2(1) show ?case
    by (simp add: diff_less_mono2)
qed

declare while_loop.simps [simp del]

text \<open>
  \<open>recv_rtpmidi_event(port, midi_data)\<close>: \<open>current_command\<close> starts at 0 and the loop
  runs from the buffer's cursor.
\<close>

definition recv_rtpmidi_event :: "int \<Rightarrow> parse_buffer_t \<Rightarrow> (int \<times> snd_seq_event) list \<times> outcome" where
  "recv_rtpmidi_event port midi_data = while_loop port 0 midi_data"

section \<open>Encoding sequencer events (\<open>rtpmidid::alsamidi_to_midiprotocol\<close>)\<close>

text \<open>
  The bytes that \<open>alsamidi_to_midiprotocol(ev, stream)\<close> appends to \<open>stream\<close> with
  \<open>write_uint8\<close>, in order. Every caller passes a fresh buffer of 32 or 64 bytes and
  at most three bytes are written, so no write reaches the end of the buffer.
  \<open>write_uint8\<close> takes a \<open>uint8_t\<close>: an \<open>int\<close> argument is truncated to its low eight
  bits (\<open>ucast\<close>). \<open>>>\<close> on a \<open>signed int\<close> is the arithmetic shift and binds tighter
  than \<open>&\<close>. The \<open>default:\<close> branch warns and writes nothing.
\<close>

definition note_status :: "u8 \<Rightarrow> u8 \<Rightarrow> u8" where
  "note_status channel velocity =
     (if velocity = 0 then 0x80 OR (channel AND 0x0F) else 0x90 OR (channel AND 0x0F))"

fun alsamidi_to_midiprotocol :: "snd_seq_event \<Rightarrow> u8 list" where
  "alsamidi_to_midiprotocol (SND_SEQ_EVENT_NOTE channel note velocity) =
     [note_status channel velocity, note, velocity]"
| "alsamidi_to_midiprotocol (SND_SEQ_EVENT_NOTEON channel note velocity) =
     [note_status channel velocity, note, velocity]"
| "alsamidi_to_midiprotocol (SND_SEQ_EVENT_NOTEOFF channel note velocity) =
     [0x80 OR (channel AND 0x0F), note, velocity]"
| "alsamidi_to_midiprotocol (SND_SEQ_EVENT_CONTROLLER channel param val) =
     [0xB0 OR (channel AND 0x0F), ucast param, ucast val]"
| "alsamidi_to_midiprotocol (SND_SEQ_EVENT_PGMCHANGE channel val) =
     [0xC0 OR channel, ucast (val AND 0x0FF)]"
| "alsamidi_to_midiprotocol (SND_SEQ_EVENT_CHANPRESS channel val) =
     [0xD0 OR channel, ucast (val AND 0x0FF)]"
| "alsamidi_to_midiprotocol (SND_SEQ_EVENT_PITCHBEND channel val) =
     [0xE0 OR (channel AND 0x0F),
      ucast ((val + 8192) AND 0x07F),
      ucast (signed_drop_bit 7 (val + 8192) AND 0x07F)]"
| "alsamidi_to_midiprotocol (SND_SEQ_EVENT_OTHER t) = []"

text \<open>
  What the callers do with the written stream before sending it
  (\<open>stream.end = stream.position; stream.position = stream.start\<close>): the buffer that
  goes on the wire holds exactly the written bytes, with the cursor at its start.
\<close>

definition written_stream :: "snd_seq_event \<Rightarrow> parse_buffer_t" where
  "written_stream ev = \<lparr>bytes = alsamidi_to_midiprotocol ev, position = 0\<rparr>"

section \<open>Known clients and the sequencer callbacks (\<open>rtpmidid::add_rtpmidi_client\<close>)\<close>

text \<open>
  \<open>rtpclient\<close> is constructed from a name, an address and a port; constructing it starts
  the outbound RTP session and destroying it ends the session. The record keeps the
  constructor's arguments.
\<close>

record rtpclient =
  rtpclient_name :: string
  rtpclient_address :: string
  rtpclient_port :: u16

text \<open>
  \<open>client_info\<close> is built as \<open>{name, address, net_port, 0, nullptr}\<close>. \<open>peer\<close> is a
  \<open>shared_ptr\<close> to an \<open>rtpclient\<close> that nothing else holds: \<open>None\<close> is \<open>nullptr\<close>, and
  assigning \<open>nullptr\<close> destroys the client.
\<close>

text \<open>
  \<open>use_count\<close> is declared in rtpmidid.hpp, outside the files at hand; it is compared
  with \<open><= 0\<close> and is modelled as an integer.
\<close>

record client_info =
  client_name :: string
  client_address :: string
  client_port :: u16
  use_count :: int
  peer :: "rtpclient option"

definition default_client_info :: client_info where
  "default_client_info =
     \<lparr>client_name = [], client_address = [], client_port = 0, use_count = 0, peer = None\<rparr>"

text \<open>
  \<open>known_clients\<close> is a \<open>std::map\<close> from the sequencer port to the \<open>client_info\<close>: an
  association list with one entry per key. \<open>known_clients[aseq_port]\<close> yields the entry, or
  a value-initialised one when the key is new; assignment is \<open>AList.update\<close>.
\<close>

type_synonym known_clients_t = "(u8 \<times> client_info) list"

definition known_clients_at :: "known_clients_t \<Rightarrow> u8 \<Rightarrow> client_info" where
  "known_clients_at m aseq_port =
     (case map_of m aseq_port of
        Some peer_info \<Rightarrow> peer_info
      | None \<Rightarrow> default_client_info)"

text \<open>
  The loop at the head of \<open>add_rtpmidi_client\<close>: is there an entry with this address and
  this port?
\<close>

definition known :: "string \<Rightarrow> u16 \<Rightarrow> known_clients_t \<Rightarrow> bool" where
  "known address net_port m =
     list_ex (\<lambda>(aseq_port, info). client_address info = address \<and> client_port info = net_port) m"

section \<open>mDNS records and calls\<close>

text \<open>
  The records of \<open>rtpmidid::mdns\<close> that the daemon announces: every record has a label
  and a TTL; a PTR record adds a service name, an SRV record a host name and a port.
\<close>

datatype service =
    service_ptr string nat string
  | service_srv string nat string u16

text \<open>
  The responder itself is outside the files at hand; the daemon's calls to it are
  recorded in order. \<open>local_name\<close> is the responder's own host name (\<open>mdns.local()\<close> in
  the disabled export-port code).
\<close>

datatype mdns_call =
    announce service bool
  | unannounce service
  | on_discovery_removal string u8

record mdns_t =
  local_name :: string
  calls :: "mdns_call list"

definition TIMEOUT_REANNOUNCE :: nat where
  "TIMEOUT_REANNOUNCE = 75 * 60"

text \<open>
  The daemon object. The sequencer \<open>seq\<close> (aseq.cpp) is outside the files at hand: its
  state is a type parameter, and \<open>seq.create_port\<close> is a parameter \<open>create_port\<close> that
  takes the sequencer and the port's name and returns the new port and the sequencer
  that holds it.
\<close>

record 'seq rtpmidid =
  seq :: 'seq
  mdns :: mdns_t
  known_clients :: known_clients_t

definition mdns_call :: "mdns_call \<Rightarrow> 'seq rtpmidid \<Rightarrow> 'seq rtpmidid" where
  "mdns_call c this = this\<lparr>mdns := (mdns this)\<lparr>calls := calls (mdns this) @ [c]\<rparr>\<rparr>"

definition announce_rtpmidid_server :: "string \<Rightarrow> u16 \<Rightarrow> 'seq rtpmidid \<Rightarrow> 'seq rtpmidid" where
  "announce_rtpmidid_server nm port this =
     (let ptr = service_ptr ''_apple-midi._udp.local'' TIMEOUT_REANNOUNCE
                  (nm @ ''._apple-midi._udp.local'');
          this1 = mdns_call (announce ptr True) this;
          srv = service_srv (nm @ ''._apple-midi._udp.local'') TIMEOUT_REANNOUNCE
                  ''ucube.local'' port
      in mdns_call (announce srv True) this1)"

definition unannounce_rtpmidid_server :: "string \<Rightarrow> u16 \<Rightarrow> 'seq rtpmidid \<Rightarrow> 'seq rtpmidid" where
  "unannounce_rtpmidid_server nm port this =
     (let ptr = service_ptr ''_apple-midi._udp.local'' 0 (nm @ ''._apple-midi._udp.local'');
          this1 = mdns_call (unannounce ptr) this;
          srv = service_srv (nm @ ''._apple-midi._udp.local'') 0 ''ucube.local'' port
      in mdns_call (unannounce srv) this1)"

definition add_rtpmidi_client ::
  "('seq \<Rightarrow> string \<Rightarrow> u8 \<times> 'seq) \<Rightarrow> string \<Rightarrow> string \<Rightarrow> u16 \<Rightarrow> 'seq rtpmidid
     \<Rightarrow> u8 option \<times> 'seq rtpmidid" where
  "add_rtpmidi_client create_port nm address net_port this =
     (if known address net_port (known_clients this) then (None, this)
      else
        (case create_port (seq this) nm of
           (aseq_port, seq') \<Rightarrow>
             (Some aseq_port,
              this\<lparr>seq := seq',
                   known_clients :=
                     AList.update aseq_port
                       \<lparr>client_name = nm, client_address = address, client_port = net_port,
                        use_count = 0, peer = None\<rparr>
                       (known_clients this)\<rparr>)))"

text \<open>\<open>fmt::format("{}", n)\<close> for an unsigned number: its decimal digits.\<close>

definition digit :: "nat \<Rightarrow> char" where
  "digit d = ''0123456789'' ! d"

fun format_nat :: "nat \<Rightarrow> string" where
  "format_nat n = (if n < 10 then [digit n] else format_nat (n div 10) @ [digit (n mod 10)])"

declare format_nat.simps [simp del]

text \<open>\<open>fmt::format("{}.{}.{}.{}", ip4[0], ip4[1], ip4[2], ip4[3])\<close>.\<close>

definition dotted_quad :: "u8 \<Rightarrow> u8 \<Rightarrow> u8 \<Rightarrow> u8 \<Rightarrow> string" where
  "dotted_quad ip0 ip1 ip2 ip3 =
     format_nat (unat ip0) @ ''.'' @ format_nat (unat ip1) @ ''.''
       @ format_nat (unat ip2) @ ''.'' @ format_nat (unat ip3)"

text \<open>
  The callback of the A query in \<open>setup_mdns\<close>, given the four address bytes of the
  record: the client's name is the service name up to its first dot, the address is the
  dotted quad, and a returned sequencer port is watched for the removal of the service.
\<close>

definition on_a_response ::
  "('seq \<Rightarrow> string \<Rightarrow> u8 \<times> 'seq) \<Rightarrow> string \<Rightarrow> u16 \<Rightarrow> u8 \<Rightarrow> u8 \<Rightarrow> u8 \<Rightarrow> u8
     \<Rightarrow> 'seq rtpmidid \<Rightarrow> u8 option \<times> 'seq rtpmidid" where
  "on_a_response create_port srvname port ip0 ip1 ip2 ip3 this =
     (let nm = takeWhile (\<lambda>c. c \<noteq> CHR ''.'') srvname;
          address = dotted_quad ip0 ip1 ip2 ip3
      in case add_rtpmidi_client create_port nm address port this of
           (None, this') \<Rightarrow> (None, this')
         | (Some aport, this') \<Rightarrow>
             (Some aport, mdns_call (on_discovery_removal srvname aport) this'))"

text \<open>
  The callbacks that \<open>add_rtpmidi_client\<close> registers for the new port. \<open>nm\<close> is the
  name that the sequencer passes for the subscriber. \<open>use_count++\<close> is inside the
  \<open>if (!peer_info->peer)\<close> block.
\<close>

definition on_subscribe :: "u8 \<Rightarrow> string \<Rightarrow> 'seq rtpmidid \<Rightarrow> 'seq rtpmidid" where
  "on_subscribe aseq_port nm this =
     (let peer_info = known_clients_at (known_clients this) aseq_port in
      this\<lparr>known_clients :=
        AList.update aseq_port
          (if peer peer_info = None
           then peer_info
                  \<lparr>peer := Some \<lparr>rtpclient_name = nm,
                                  rtpclient_address = client_address peer_info,
                                  rtpclient_port = client_port peer_info\<rparr>,
                   use_count := use_count peer_info + 1\<rparr>
           else peer_info)
          (known_clients this)\<rparr>)"

definition on_unsubscribe :: "u8 \<Rightarrow> 'seq rtpmidid \<Rightarrow> 'seq rtpmidid" where
  "on_unsubscribe aseq_port this =
     (let peer_info = known_clients_at (known_clients this) aseq_port;
          peer_info1 = peer_info\<lparr>use_count := use_count peer_info - 1\<rparr> in
      this\<lparr>known_clients :=
        AList.update aseq_port
          (if use_count peer_info1 \<le> 0 then peer_info1\<lparr>peer := None\<rparr> else peer_info1)
          (known_clients this)\<rparr>)"

text \<open>A run of subscription notifications on one port, delivered in order.\<close>

datatype subscription_event = Subscribe string | Unsubscribe

fun deliver :: "u8 \<Rightarrow> subscription_event \<Rightarrow> 'seq rtpmidid \<Rightarrow> 'seq rtpmidid" where
  "deliver aseq_port (Subscribe nm) this = on_subscribe aseq_port nm this"
| "deliver aseq_port Unsubscribe this = on_unsubscribe aseq_port this"

definition deliver_all :: "u8 \<Rightarrow> subscription_event list \<Rightarrow> 'seq rtpmidid \<Rightarrow> 'seq rtpmidid" where
  "deliver_all aseq_port evs this = fold (deliver aseq_port) evs this"

text \<open>The outbound session of a port: the \<open>rtpclient\<close> its entry holds, if any.\<close>

definition session :: "'seq rtpmidid \<Rightarrow> u8 \<Rightarrow> rtpclient option" where
  "session this aseq_port = peer (known_clients_at (known_clients this) aseq_port)"

section \<open>Discovery (\<open>rtpmidid::setup_mdns\<close>)\<close>

text \<open>
  The record types of mDNS queries, and the address records that a query for a host
  name can resolve to: an A record with four address bytes or an AAAA record with
  sixteen, each with its name and TTL.
\<close>

datatype query_type = mdns_PTR | mdns_SRV | mdns_A | mdns_AAAA

datatype address_record =
    service_a string nat u8 u8 u8 u8
  | service_aaaa string nat "u8 list"

fun record_name :: "address_record \<Rightarrow> string" where
  "record_name (service_a label ttl ip0 ip1 ip2 ip3) = label"
| "record_name (service_aaaa label ttl ip) = label"

fun record_type :: "address_record \<Rightarrow> query_type" where
  "record_type (service_a label ttl ip0 ip1 ip2 ip3) = mdns_A"
| "record_type (service_aaaa label ttl ip) = mdns_AAAA"

text \<open>
  What discovery keeps besides the daemon state above: the member \<open>known_mdns_peers\<close>
  (a \<open>std::set\<close> of service names) and the queries made with \<open>mdns.query(name, type,
  callback)\<close>, each with the service name and the port that its callback captures.
\<close>

record 'seq discovery =
  daemon :: "'seq rtpmidid"
  known_mdns_peers :: "string list"
  queries :: "(string \<times> query_type \<times> string \<times> u16) list"

text \<open>
  The handler of SRV discoveries in \<open>setup_mdns\<close>: a removal (TTL 0) and a service
  that is already known are ignored; a new service is remembered and its host name is
  queried, for the record type A only.
\<close>

definition on_srv_discovery :: "service \<Rightarrow> 'seq discovery \<Rightarrow> 'seq discovery" where
  "on_srv_discovery svc d =
     (case svc of
        service_srv srvname ttl hostname port \<Rightarrow>
          if ttl = 0 then d
          else if srvname \<in> set (known_mdns_peers d) then d
          else d\<lparr>known_mdns_peers := srvname # known_mdns_peers d,
                 queries := queries d @ [(hostname, mdns_A, srvname, port)]\<rparr>
      | service_ptr label ttl servicename \<Rightarrow> d)"

text \<open>
  Modelled from the spec: the responder (mdns.cpp) is outside the files at hand. Its
  interface is \<open>query(name, type)\<close> with a callback: a resolved record is handed to the
  callbacks of the queries made for its name and its record type, in the order of the
  queries. The callback of an A query is \<open>on_a_response\<close>; no query is ever made for
  the type AAAA, so an AAAA record meets no callback.
\<close>

definition resolved ::
  "('seq \<Rightarrow> string \<Rightarrow> u8 \<times> 'seq) \<Rightarrow> address_record \<Rightarrow> 'seq discovery \<Rightarrow> 'seq discovery" where
  "resolved create_port rec d =
     fold (\<lambda>(hostname, qtype, srvname, port) d'.
             if hostname = record_name rec \<and> qtype = record_type rec
             then (case rec of
                     service_a label ttl ip0 ip1 ip2 ip3 \<Rightarrow>
                       d'\<lparr>daemon :=
                            snd (on_a_response create_port srvname port ip0 ip1 ip2 ip3 (daemon d'))\<rparr>
                   | service_aaaa label ttl ip \<Rightarrow> d')
             else d')
          (queries d) d"

section \<open>The control socket (control_socket.cpp)\<close>

definition MSG_CLOSE_CONN :: string where
  \<open>MSG_CLOSE_CONN = ''{"event": "close", "detail": "Shutdown", "code": 0}'' @ [CHR 0x0A]\<close>

definition MSG_TOO_LONG :: string where
  \<open>MSG_TOO_LONG = ''{"event": "close", "detail": "Message too long", "code": 1}'' @ [CHR 0x0A]\<close>

subsection \<open>JSON values\<close>

text \<open>
  \<open>json_t\<close> is the JSON value type of the JSON library. \<open>json_at\<close> is \<open>js[key]\<close> on a
  mutable value: a missing member of an object reads as null (it is inserted), a null
  value becomes an object, any other value raises a type error. \<open>json_get_string\<close> is
  the conversion to \<open>std::string\<close>, which raises a type error on anything but a string.
\<close>

datatype json_t =
    json_null
  | json_boolean bool
  | json_number int
  | json_string string
  | json_array "json_t list"
  | json_object "(string \<times> json_t) list"

definition json_at :: "json_t \<Rightarrow> string \<Rightarrow> exn + json_t" where
  "json_at js key =
     (case js of
        json_object members \<Rightarrow>
          Inr (case map_of members key of Some v \<Rightarrow> v | None \<Rightarrow> json_null)
      | json_null \<Rightarrow> Inr json_null
      | _ \<Rightarrow> Inl json_type_error)"

definition json_get_string :: "json_t \<Rightarrow> exn + string" where
  "json_get_string js = (case js of json_string s \<Rightarrow> Inr s | _ \<Rightarrow> Inl json_type_error)"

definition json_contains :: "json_t \<Rightarrow> string \<Rightarrow> bool" where
  "json_contains js key =
     (case js of json_object members \<Rightarrow> map_of members key \<noteq> None | _ \<Rightarrow> False)"

definition json_set :: "(string \<times> json_t) list \<Rightarrow> string \<Rightarrow> json_t \<Rightarrow> (string \<times> json_t) list" where
  "json_set members key v = AList.update key v members"

subsection \<open>\<open>control_socket_t::parse_command\<close>\<close>

text \<open>
  \<open>peer_command_re\<close> is \<open>^(\d*)\.(.*)\<close> and is matched against the whole method: digits,
  a dot, then any characters but line terminators. \<open>std::stoi\<close> raises
  \<open>invalid_argument\<close> on the empty string and \<open>out_of_range\<close> beyond \<open>INT_MAX\<close>.
\<close>

definition is_digit :: "char \<Rightarrow> bool" where
  "is_digit c = (c \<in> set ''0123456789'')"

definition digit_value :: "char \<Rightarrow> int" where
  "digit_value c = of_char c - 48"

definition regex_match_peer_command :: "string \<Rightarrow> (string \<times> string) option" where
  "regex_match_peer_command method =
     (case dropWhile is_digit method of
        [] \<Rightarrow> None
      | c # cmd \<Rightarrow>
          if c = CHR ''.'' \<and> CHR 0x0A \<notin> set cmd \<and> CHR 0x0D \<notin> set cmd
          then Some (takeWhile is_digit method, cmd)
          else None)"

definition stoi :: "string \<Rightarrow> exn + int" where
  "stoi s =
     (if s = [] then Inl invalid_argument
      else
        (let n = foldl (\<lambda>a c. 10 * a + digit_value c) 0 s in
         if n > 2147483647 then Inl out_of_range else Inr n))"

text \<open>
  What \<open>parse_command\<close> calls outside the file: the JSON library (\<open>json_t::parse\<close>,
  \<open>dump\<close>), the message of an exception (\<open>what\<close>), the router's peers
  (\<open>get_peer_by_id\<close>, giving the peer's \<open>command\<close> function or nothing), and the bodies of
  the entries of the \<open>commands\<close> table, which call the router. A command takes the
  parameters and returns a JSON value or raises.
\<close>

type_synonym command_func = "json_t \<Rightarrow> exn + json_t"

record control_env =
  parse :: "string \<Rightarrow> exn + json_t"
  dump :: "json_t \<Rightarrow> string"
  what :: "exn \<Rightarrow> string"
  commands :: "(string \<times> command_func) list"
  get_peer_by_id :: "int \<Rightarrow> (string \<Rightarrow> command_func) option"

text \<open>\<open>retdata["result"] = res\<close> and \<open>retdata["error"] = err\<close>.\<close>

definition set_result :: "(string \<times> json_t) list \<Rightarrow> json_t \<Rightarrow> json_t" where
  "set_result retdata res = json_object (json_set retdata ''result'' res)"

definition set_error :: "(string \<times> json_t) list \<Rightarrow> json_t \<Rightarrow> json_t" where
  "set_error retdata err = json_object (json_set retdata ''error'' err)"

definition quoted :: "string \<Rightarrow> string" where
  "quoted s = [CHR 0x27] @ s @ [CHR 0x27]"

text \<open>The branch of the \<open>try\<close> block taken when the method matches \<open>peer_command_re\<close>.\<close>

definition peer_command_branch ::
  "control_env \<Rightarrow> json_t \<Rightarrow> (string \<times> json_t) list \<Rightarrow> string \<Rightarrow> string \<Rightarrow> exn + json_t" where
  "peer_command_branch env js retdata digits cmd =
     (case stoi digits of
        Inl e \<Rightarrow> Inl e
      | Inr peer_id \<Rightarrow>
          (case get_peer_by_id env peer_id of
             Some peer_command \<Rightarrow>
               (case json_at js ''params'' of
                  Inl e \<Rightarrow> Inl e
                | Inr params \<Rightarrow>
                    (case peer_command cmd params of
                       Inl e \<Rightarrow> Inl e
                     | Inr res \<Rightarrow>
                         if json_contains res ''error''
                         then (case json_at res ''error'' of
                                 Inl e \<Rightarrow> Inl e
                               | Inr err \<Rightarrow> Inr (set_error retdata err))
                         else Inr (set_result retdata res)))
           | None \<Rightarrow>
               Inr (set_error retdata
                      (json_string (''Unknown peer '' @ quoted (format_nat (nat peer_id)))))))"

text \<open>
  The \<open>try\<close> block: \<open>Inl e\<close> is an exception that reaches the \<open>catch\<close> clause, \<open>Inr\<close>
  is the value of \<open>retdata\<close> at one of the \<open>return\<close> statements.
\<close>

definition try_block :: "control_env \<Rightarrow> json_t \<Rightarrow> string \<Rightarrow> (string \<times> json_t) list \<Rightarrow> exn + json_t" where
  "try_block env js method retdata =
     (case find (\<lambda>cmd. fst cmd = method) (commands env) of
        Some cmd \<Rightarrow>
          (case json_at js ''params'' of
             Inl e \<Rightarrow> Inl e
           | Inr params \<Rightarrow>
               (case snd cmd params of
                  Inl e \<Rightarrow> Inl e
                | Inr res \<Rightarrow> Inr (set_result retdata res)))
      | None \<Rightarrow>
          (case regex_match_peer_command method of
             Some (digits, cmd) \<Rightarrow> peer_command_branch env js retdata digits cmd
           | None \<Rightarrow>
               Inr (set_error retdata (json_string (''Unknown method '' @ quoted method)))))"

text \<open>
  \<open>parse_command\<close>: \<open>Inl e\<close> is an exception that leaves the function, \<open>Inr retdata\<close>
  is the JSON value whose \<open>dump()\<close> is returned. \<open>json_t::parse\<close>, the conversion of
  \<open>js["method"]\<close> to \<open>std::string\<close> and the construction of \<open>retdata\<close> come before
  the \<open>try\<close>.
\<close>

definition parse_command :: "control_env \<Rightarrow> string \<Rightarrow> exn + json_t" where
  "parse_command env command =
     (case parse env command of
        Inl e \<Rightarrow> Inl e
      | Inr js \<Rightarrow>
          (case json_at js ''method'' of
             Inl e \<Rightarrow> Inl e
           | Inr m \<Rightarrow>
               (case json_get_string m of
                  Inl e \<Rightarrow> Inl e
                | Inr method \<Rightarrow>
                    (case json_at js ''id'' of
                       Inl e \<Rightarrow> Inl e
                     | Inr ident \<Rightarrow>
                         (let retdata = [(''id'', ident)] in
                          case try_block env js method retdata of
                            Inl e \<Rightarrow> Inr (set_error retdata (json_string (what env e)))
                          | Inr reply \<Rightarrow> Inr reply)))))"

subsection \<open>\<open>control_socket_t::data_ready\<close>\<close>

text \<open>
  The system calls and poller calls that \<open>data_ready\<close> makes, in order. A client is
  its file descriptor; \<open>listener_stop fd\<close> stops the poller's listener of that client.
\<close>

datatype syscall =
    sys_write int string
  | sys_close int
  | sys_fsync int
  | listener_stop int

record control_socket_t =
  clients :: "int list"

text \<open>
  How \<open>data_ready\<close> ends: it returns, with the clients left and the calls made; an
  exception leaves it, towards the poller that called it; or it dereferences
  \<open>clients.end()\<close>.
\<close>

datatype data_ready_result =
    Returned control_socket_t "syscall list"
  | Threw exn "syscall list"
  | Undefined_behaviour

text \<open>
  \<open>data_ready(fd)\<close>. \<open>recv_ret\<close> is what \<open>recv(fd, buf, 1024, 0)\<close> returned and \<open>buf\<close> the
  bytes it stored; \<open>l\<close> is that result converted to \<open>size_t\<close> (64 bits), so a failed
  \<open>recv\<close> (-1) is not \<open><= 0\<close>. \<open>write_ret\<close> gives the
  result of each \<open>write\<close>. \<open>trim_copy\<close> (stringpp.cpp) is a parameter. The string
  passed on ends at the first NUL, which \<open>buf[l] = 0\<close> guarantees.
\<close>

definition data_ready ::
  "control_env \<Rightarrow> (string \<Rightarrow> string) \<Rightarrow> (int \<Rightarrow> string \<Rightarrow> int)
     \<Rightarrow> int \<Rightarrow> int \<Rightarrow> string \<Rightarrow> control_socket_t \<Rightarrow> data_ready_result" where
  "data_ready env trim_copy write_ret fd recv_ret buf this =
     (let l = (word_of_int recv_ret :: 64 word) in
      if l \<le> 0 then
        (case find (\<lambda>client. client = fd) (clients this) of
           None \<Rightarrow> Undefined_behaviour
         | Some I \<Rightarrow>
             Returned (this\<lparr>clients := remove1 I (clients this)\<rparr>) [listener_stop I, sys_close I])
      else if l \<ge> 1024 - 1 then
        (if write_ret fd MSG_TOO_LONG < 0
         then Returned this [sys_write fd MSG_TOO_LONG, sys_close fd]
         else Returned this [sys_write fd MSG_TOO_LONG])
      else
        (case parse_command env (trim_copy (takeWhile (\<lambda>c. c \<noteq> CHR 0x00) (take (unat l) buf))) of
           Inl e \<Rightarrow> Threw e []
         | Inr retdata \<Rightarrow>
             (let ret = dump env retdata @ [CHR 0x0A] in
              if write_ret fd ret < 0
              then Returned this [sys_write fd ret, sys_close fd]
              else Returned this [sys_write fd ret, sys_fsync fd])))"

text \<open>
  The loop over the clients in the destructor \<open>~control_socket_t\<close>: every client's
  listener is stopped, the shutdown message is written to it, and its descriptor is
  closed.
\<close>

definition destructor :: "control_socket_t \<Rightarrow> syscall list" where
  "destructor this =
     concat (map (\<lambda>client. [listener_stop client, sys_write client MSG_CLOSE_CONN, sys_close client])
               (clients this))"

text \<open>A reply of the control plane: a JSON object with an id and a result or an error.\<close>

definition is_reply :: "json_t \<Rightarrow> bool" where
  "is_reply js = (json_contains js ''id'' \<and> (json_contains js ''result'' \<or> json_contains js ''error''))"

section \<open>Facts about status bytes and 7-bit data bytes\<close>

lemma u8_below_16:
  assumes "ch < (16::u8)"
  shows "ch \<in> set (map of_nat [0..<16])"
proof -
  have "unat ch < 16"
    using assms by (simp add: word_less_nat_alt)
  then have "unat ch \<in> set [0..<16]"
    by simp
  then have "(of_nat (unat ch) :: u8) \<in> of_nat ` set [0..<16]"
    by (rule imageI)
  then show ?thesis
    by simp
qed

text \<open>
  A channel below 16 occupies the low nibble only, so or-ing it into a status nibble
  and masking gives back the status nibble and the channel.
\<close>

lemma status_bits:
  assumes "ch < (16::u8)"
  shows "ch AND 0x0F = ch"
    and "(0x80 OR ch) AND 0x80 \<noteq> 0" and "(0x80 OR ch) AND 0xF0 = 0x80" and "(0x80 OR ch) AND 0x0F = ch"
    and "(0x90 OR ch) AND 0x80 \<noteq> 0" and "(0x90 OR ch) AND 0xF0 = 0x90" and "(0x90 OR ch) AND 0x0F = ch"
    and "(0xD0 OR ch) AND 0x80 \<noteq> 0" and "(0xD0 OR ch) AND 0xF0 = 0xD0" and "(0xD0 OR ch) AND 0x0F = ch"
    and "(0xE0 OR ch) AND 0x80 \<noteq> 0" and "(0xE0 OR ch) AND 0xF0 = 0xE0" and "(0xE0 OR ch) AND 0x0F = ch"
  using u8_below_16 [OF assms] by (simp_all add: upt_rec; elim disjE; simp)+

lemmas decoder_defs =
  recv_rtpmidi_event_def while_loop.simps loop_body_def next_command_def switch_type_def
  case_0xE0_def read2_def read_uint8_def

lemma decode_single_noteon:
  assumes "ch < 16"
  shows "recv_rtpmidi_event port \<lparr>bytes = [0x90 OR ch, n, v], position = 0\<rparr>
       = ([(port, SND_SEQ_EVENT_NOTEON ch n v)], Finished)"
  by (simp add: decoder_defs status_bits [OF assms])

lemma decode_single_pitchbend:
  assumes "ch < 16"
  shows "recv_rtpmidi_event port \<lparr>bytes = [0xE0 OR ch, lsb, msb], position = 0\<rparr>
       = ([(port, SND_SEQ_EVENT_PITCHBEND ch (pitch_bend_of lsb msb))], Finished)"
  by (simp add: decoder_defs status_bits [OF assms])

subsection \<open>The two 7-bit halves of a pitch bend\<close>

lemma mask_0x7F: "(0x7F :: 32 word) = mask 7"
  by (simp add: mask_eq_exp_minus_1)

lemma lsb_byte:
  fixes w :: "32 word"
  shows "(ucast (w AND 0x7F) :: u8) = word_of_int (uint w mod 128)"
proof -
  have "w AND 0x7F = word_of_int (uint w mod 2 ^ 7)"
    unfolding mask_0x7F by (rule and_mask_mod_2p)
  then have "(ucast (w AND 0x7F) :: u8) = ucast (word_of_int (uint w mod 128) :: 32 word)"
    by simp
  also have "\<dots> = word_of_int (uint w mod 128)"
    by (rule word_uint_eqI) (simp add: uint_word_of_int unsigned_ucast_eq take_bit_eq_mod)
  finally show ?thesis .
qed

text \<open>On a value with a clear sign bit the arithmetic shift is a division.\<close>

lemma signed_shift_small:
  fixes w :: "32 word"
  assumes "uint w < 16384"
  shows "signed_drop_bit 7 w = word_of_int (uint w div 128)"
proof -
  have "sint w = signed_take_bit 31 (uint w)"
    by (simp add: sint_uint)
  also have "\<dots> = uint w"
    using assms by (intro signed_take_bit_int_eq_self) (simp_all add: order.trans [OF _ uint_ge_0])
  finally have s: "sint w = uint w" .
  have "signed_drop_bit 7 w = word_of_int (sint (signed_drop_bit 7 w))"
    by simp
  also have "\<dots> = word_of_int (uint w div 128)"
    by (simp only: sint_signed_drop_bit_eq s drop_bit_eq_div) simp
  finally show ?thesis .
qed

lemma msb_byte:
  fixes w :: "32 word"
  assumes "uint w < 16384"
  shows "(ucast (signed_drop_bit 7 w AND 0x7F) :: u8) = word_of_int (uint w div 128)"
proof -
  let ?q = "uint w div 128"
  have q: "0 \<le> ?q" "?q < 128"
    using assms by (simp_all add: pos_imp_zdiv_nonneg_iff)
  have "uint (word_of_int ?q :: 32 word) = ?q"
    using q by (simp add: uint_word_of_int)
  then have "uint (word_of_int ?q :: 32 word) mod 128 = ?q"
    using q by simp
  then show ?thesis
    by (simp only: signed_shift_small [OF assms] lsb_byte)
qed

lemma pitch_bend_of_bytes:
  assumes "0 \<le> a" "a < 128" "0 \<le> b" "b < 128"
  shows "pitch_bend_of (word_of_int a) (word_of_int b) = word_of_int (b * 128 + a) - 8192"
proof -
  have a: "(ucast (word_of_int a :: u8) :: 32 word) = word_of_int a"
    using assms by (intro word_uint_eqI) (simp add: uint_word_of_int unsigned_ucast_eq take_bit_eq_mod)
  have b: "(ucast (word_of_int b :: u8) :: 32 word) = word_of_int b"
    using assms by (intro word_uint_eqI) (simp add: uint_word_of_int unsigned_ucast_eq take_bit_eq_mod)
  show ?thesis
    by (simp add: pitch_bend_of_def a b push_bit_eq_mult wi_hom_syms)
qed

lemma uint_shifted:
  fixes v :: "32 word"
  assumes "- 8192 \<le> sint v" "sint v \<le> 8191"
  shows "uint (v + 8192) = sint v + 8192"
proof -
  have "v + 8192 = word_of_int (sint v + 8192)"
    by (simp add: wi_hom_syms)
  then have "uint (v + 8192) = (sint v + 8192) mod 2 ^ 32"
    by (simp only: uint_word_of_int) simp
  also have "\<dots> = sint v + 8192"
    using assms by simp
  finally show ?thesis .
qed

lemma pitchbend_bytes:
  fixes v :: "32 word"
  assumes "- 8192 \<le> sint v" "sint v \<le> 8191"
  shows "(ucast ((v + 8192) AND 0x07F) :: u8) = word_of_int ((sint v + 8192) mod 128)"
    and "(ucast (signed_drop_bit 7 (v + 8192) AND 0x07F) :: u8) = word_of_int ((sint v + 8192) div 128)"
proof -
  have u: "uint (v + 8192) = sint v + 8192"
    using assms by (rule uint_shifted)
  have lt: "uint (v + 8192) < 16384"
    using u assms by simp
  show "(ucast ((v + 8192) AND 0x07F) :: u8) = word_of_int ((sint v + 8192) mod 128)"
    by (simp only: lsb_byte u)
  show "(ucast (signed_drop_bit 7 (v + 8192) AND 0x07F) :: u8) = word_of_int ((sint v + 8192) div 128)"
    using msb_byte [OF lt] by (simp only: u)
qed

lemma pitch_bend_value_roundtrip:
  fixes v :: "32 word"
  assumes "- 8192 \<le> sint v" "sint v \<le> 8191"
  shows "pitch_bend_of (ucast ((v + 8192) AND 0x07F)) (ucast (signed_drop_bit 7 (v + 8192) AND 0x07F)) = v"
proof -
  let ?k = "sint v + 8192"
  have k: "0 \<le> ?k" "?k < 16384"
    using assms by simp_all
  have "pitch_bend_of (ucast ((v + 8192) AND 0x07F)) (ucast (signed_drop_bit 7 (v + 8192) AND 0x07F))
      = pitch_bend_of (word_of_int (?k mod 128)) (word_of_int (?k div 128))"
    by (simp only: pitchbend_bytes [OF assms])
  also have "\<dots> = word_of_int (?k div 128 * 128 + ?k mod 128) - 8192"
    using k by (intro pitch_bend_of_bytes) simp_all
  also have "?k div 128 * 128 + ?k mod 128 = ?k"
    by simp
  also have "word_of_int ?k - 8192 = v"
    by (simp add: wi_hom_syms)
  finally show ?thesis .
qed

text \<open>
  The encoder masks the channel to its low nibble, so the round trip of a pitch bend
  keeps the value and the low nibble of the channel.
\<close>

lemma low_nibble_below_16: "(ch::u8) AND 0x0F < 16"
proof -
  have "ch AND 0x0F \<le> 0x0F"
    by (rule word_and_le1)
  then show ?thesis
    by (simp add: word_le_nat_alt word_less_nat_alt)
qed

lemma decode_written_pitchbend:
  fixes v :: s32
  assumes "- 8192 \<le> sint v" and "sint v \<le> 8191"
  shows "recv_rtpmidi_event port (written_stream (SND_SEQ_EVENT_PITCHBEND ch v))
       = ([(port, SND_SEQ_EVENT_PITCHBEND (ch AND 0x0F) v)], Finished)"
proof -
  have "recv_rtpmidi_event port (written_stream (SND_SEQ_EVENT_PITCHBEND ch v))
      = ([(port, SND_SEQ_EVENT_PITCHBEND (ch AND 0x0F)
            (pitch_bend_of (ucast ((v + 8192) AND 0x07F))
               (ucast (signed_drop_bit 7 (v + 8192) AND 0x07F))))], Finished)"
    using decode_single_pitchbend [OF low_nibble_below_16]
    by (simp add: written_stream_def)
  then show ?thesis
    by (simp only: pitch_bend_value_roundtrip [OF assms])
qed

subsection \<open>No input decodes to a channel-pressure event\<close>

lemma switch_type_never_chanpress:
  "switch_type c pb = Inr (Some ev, pb') \<Longrightarrow> ev \<noteq> SND_SEQ_EVENT_CHANPRESS ch v"
  by (auto simp: switch_type_def case_0xE0_def Let_def split: if_splits sum.splits prod.splits)

lemma loop_body_never_chanpress:
  "loop_body c pb = Inr (cmd, Some ev, pb') \<Longrightarrow> ev \<noteq> SND_SEQ_EVENT_CHANPRESS ch v"
  by (auto simp: loop_body_def split: sum.splits prod.splits dest: switch_type_never_chanpress)

lemma while_loop_never_chanpress:
  "(p, SND_SEQ_EVENT_CHANPRESS ch v) \<notin> set (fst (while_loop port c pb))"
proof (induction port c pb rule: while_loop.induct)
  case (1 port current_command pb)
  show ?case
  proof (cases "position pb < length (bytes pb)")
    case False
    then show ?thesis by (subst while_loop.simps) simp
  next
    case True
    show ?thesis
    proof (cases "loop_body current_command pb")
      case (Inl e)
      with True show ?thesis by (subst while_loop.simps) simp
    next
      case (Inr r)
      obtain cmd ev_opt pb' where r: "r = (cmd, ev_opt, pb')"
        by (cases r) auto
      show ?thesis
      proof (cases ev_opt)
        case None
        with True Inr r show ?thesis by (subst while_loop.simps) simp
      next
        case (Some ev)
        have "ev \<noteq> SND_SEQ_EVENT_CHANPRESS ch v"
          using Inr r Some loop_body_never_chanpress by blast
        moreover have "(p, SND_SEQ_EVENT_CHANPRESS ch v) \<notin> set (fst (while_loop port cmd pb'))"
          using "1.IH" [OF True Inr] r Some by simp
        ultimately show ?thesis
          using True Inr r Some by (subst while_loop.simps) (simp add: case_prod_beta)
      qed
    qed
  qed
qed

lemma recv_rtpmidi_event_never_chanpress:
  "(p, SND_SEQ_EVENT_CHANPRESS ch v) \<notin> set (fst (recv_rtpmidi_event port midi_data))"
  by (simp only: recv_rtpmidi_event_def while_loop_never_chanpress not_False_eq_True)

section \<open>Claims about the codec\<close>

text \<open>
  C1 (the code departs from the claim). The claim: every Channel Pressure command
  (\<open>0xD0 | ch\<close>, one data byte) decodes to a channel-pressure event and consumes one
  data byte before the next command. The stream below holds two Channel Pressure
  commands on channel 3, with values 0x40 and 0x41. Because \<open>case 0xD0\<close> falls through
  into \<open>case 0xE0\<close>, the decoder reads the second status byte and its value as the two
  halves of a pitch bend and emits that pitch bend as the only event.
\<close>

theorem chanpress_decodes_as_pitchbend:
  "recv_rtpmidi_event 0 \<lparr>bytes = [0xD3, 0x40, 0xD3, 0x41], position = 0\<rparr>
     = ([(0, SND_SEQ_EVENT_PITCHBEND 3 339)], Finished)"
  by (simp add: decoder_defs pitch_bend_of_def)

text \<open>
  C2 (counterexample). The claim: a wire Note On with velocity 0 decodes as a Note Off
  event. On channel 0, note 60 the decoder emits a Note On event with velocity 0.
\<close>

theorem noteon_velocity_zero_not_noteoff:
  "fst (recv_rtpmidi_event 0 \<lparr>bytes = [0x90, 0x3C, 0x00], position = 0\<rparr>)
     = [(0, SND_SEQ_EVENT_NOTEON 0 0x3C 0)]
   \<and> fst (recv_rtpmidi_event 0 \<lparr>bytes = [0x90, 0x3C, 0x00], position = 0\<rparr>)
     \<noteq> [(0, SND_SEQ_EVENT_NOTEOFF 0 0x3C 0)]"
  by (simp add: decoder_defs)

text \<open>
  C2 (amended). For every channel \<open>ch\<close> (0 to 15) and note \<open>n\<close>, a wire Note On command
  (status \<open>0x90 | ch\<close>) with velocity 0 decodes as a Note On event with velocity 0 on that
  channel and note: the decoder keeps the wire command's type.
\<close>

theorem noteon_velocity_zero_stays_noteon:
  assumes "ch < 16"
  shows "recv_rtpmidi_event port \<lparr>bytes = [0x90 OR ch, n, 0], position = 0\<rparr>
       = ([(port, SND_SEQ_EVENT_NOTEON ch n 0)], Finished)"
  using assms by (rule decode_single_noteon)

theorem noteon_velocity_zero_stays_noteon_witness:
  "(5::u8) < 16
   \<and> recv_rtpmidi_event 2 \<lparr>bytes = [0x95, 0x3C, 0], position = 0\<rparr>
       = ([(2, SND_SEQ_EVENT_NOTEON 5 0x3C 0)], Finished)"
  using noteon_velocity_zero_stays_noteon [of 5 2 "0x3C"] by simp

text \<open>
  C3. For every channel \<open>ch\<close> (0 to 15) and every pitch bend value \<open>v\<close> from -8192 to
  8191, the encoder writes the status byte \<open>0xE0 | ch\<close>, then the low seven bits of
  \<open>v + 8192\<close>, then its high seven bits; decoding the written stream emits exactly the
  pitch bend event that was encoded.
\<close>

theorem pitchbend_roundtrip:
  assumes "ch < 16" and "- 8192 \<le> sint v" and "sint v \<le> 8191"
  shows "alsamidi_to_midiprotocol (SND_SEQ_EVENT_PITCHBEND ch v)
           = [0xE0 OR ch,
              word_of_int ((sint v + 8192) mod 128),
              word_of_int ((sint v + 8192) div 128)]
       \<and> recv_rtpmidi_event port (written_stream (SND_SEQ_EVENT_PITCHBEND ch v))
           = ([(port, SND_SEQ_EVENT_PITCHBEND ch v)], Finished)"
proof
  show "alsamidi_to_midiprotocol (SND_SEQ_EVENT_PITCHBEND ch v)
           = [0xE0 OR ch,
              word_of_int ((sint v + 8192) mod 128),
              word_of_int ((sint v + 8192) div 128)]"
    using pitchbend_bytes [OF assms(2,3)] status_bits(1) [OF assms(1)] by simp
next
  show "recv_rtpmidi_event port (written_stream (SND_SEQ_EVENT_PITCHBEND ch v))
      = ([(port, SND_SEQ_EVENT_PITCHBEND ch v)], Finished)"
    using decode_written_pitchbend [OF assms(2,3)] status_bits(1) [OF assms(1)] by simp
qed

theorem pitchbend_roundtrip_witness:
  "(3::u8) < 16 \<and> - 8192 \<le> sint (- 8192 :: s32) \<and> sint (- 8192 :: s32) \<le> 8191
   \<and> alsamidi_to_midiprotocol (SND_SEQ_EVENT_PITCHBEND 3 (- 8192)) = [0xE3, 0, 0]
   \<and> recv_rtpmidi_event 1 (written_stream (SND_SEQ_EVENT_PITCHBEND 3 (- 8192)))
       = ([(1, SND_SEQ_EVENT_PITCHBEND 3 (- 8192))], Finished)"
  using pitchbend_roundtrip [of 3 "- 8192" 1] by simp

text \<open>
  C10. For every sequencer Note On event with velocity 0 (channel 0 to 15) the encoder
  writes the Note Off status byte \<open>0x80 | channel\<close>, the note and velocity 0; for every
  Note On with a nonzero velocity it writes the Note On status byte \<open>0x90 | channel\<close>,
  the note and the velocity. So a Note On with velocity 0 and a Note Off with velocity 0
  of the same channel and note are written as the same bytes.
\<close>

theorem noteon_zero_encodes_as_noteoff:
  assumes "ch < 16"
  shows "alsamidi_to_midiprotocol (SND_SEQ_EVENT_NOTEON ch n 0) = [0x80 OR ch, n, 0]
       \<and> (v \<noteq> 0 \<longrightarrow> alsamidi_to_midiprotocol (SND_SEQ_EVENT_NOTEON ch n v) = [0x90 OR ch, n, v])
       \<and> alsamidi_to_midiprotocol (SND_SEQ_EVENT_NOTEON ch n 0)
           = alsamidi_to_midiprotocol (SND_SEQ_EVENT_NOTEOFF ch n 0)"
  using status_bits(1) [OF assms] by (simp add: note_status_def)

theorem noteon_zero_encodes_as_noteoff_witness:
  "(9::u8) < 16 \<and> (0x40::u8) \<noteq> 0
   \<and> alsamidi_to_midiprotocol (SND_SEQ_EVENT_NOTEON 9 0x3C 0) = [0x89, 0x3C, 0]
   \<and> alsamidi_to_midiprotocol (SND_SEQ_EVENT_NOTEON 9 0x3C 0x40) = [0x99, 0x3C, 0x40]
   \<and> alsamidi_to_midiprotocol (SND_SEQ_EVENT_NOTEON 9 0x3C 0)
       = alsamidi_to_midiprotocol (SND_SEQ_EVENT_NOTEOFF 9 0x3C 0)"
  using noteon_zero_encodes_as_noteoff [of 9 "0x3C" "0x40"] by simp

section \<open>Facts about the known clients\<close>

lemma known_iff:
  "known a p m \<longleftrightarrow> (\<exists>k info. (k, info) \<in> set m \<and> client_address info = a \<and> client_port info = p)"
  by (auto simp: known_def list_ex_iff)

lemma known_update:
  "known a p (AList.update k \<lparr>client_name = n, client_address = a, client_port = p, use_count = u, peer = q\<rparr> m)"
  by (induction m) (auto simp: known_def)

lemma map_of_update_same: "map_of (AList.update k v al) k = Some v"
  by (simp add: update_conv')

lemma add_rtpmidi_client_twice:
  "add_rtpmidi_client create_port n' a p (snd (add_rtpmidi_client create_port n a p this))
     = (None, snd (add_rtpmidi_client create_port n a p this))"
  by (simp add: add_rtpmidi_client_def known_update split: prod.splits)

lemma map_of_update_other: "k' \<noteq> k \<Longrightarrow> map_of (AList.update k v al) k' = map_of al k'"
  by (simp add: update_conv')

lemma add_rtpmidi_client_known:
  assumes "known a p (known_clients this)"
  shows "add_rtpmidi_client create_port n a p this = (None, this)"
  using assms by (simp add: add_rtpmidi_client_def)

lemma add_rtpmidi_client_new:
  assumes "\<not> known a p (known_clients this)"
  shows "add_rtpmidi_client create_port n a p this
       = (Some (fst (create_port (seq this) n)),
          this\<lparr>seq := snd (create_port (seq this) n),
               known_clients :=
                 AList.update (fst (create_port (seq this) n))
                   \<lparr>client_name = n, client_address = a, client_port = p,
                    use_count = 0, peer = None\<rparr>
                   (known_clients this)\<rparr>)"
  using assms by (simp add: add_rtpmidi_client_def split: prod.splits)

lemma on_a_response_known:
  assumes "known (dotted_quad ip0 ip1 ip2 ip3) port (known_clients this)"
  shows "on_a_response create_port srvname port ip0 ip1 ip2 ip3 this = (None, this)"
  using assms by (simp add: on_a_response_def add_rtpmidi_client_known Let_def)

lemma on_a_response_new:
  assumes "\<not> known (dotted_quad ip0 ip1 ip2 ip3) port (known_clients this)"
  shows "on_a_response create_port srvname port ip0 ip1 ip2 ip3 this
       = (Some (fst (create_port (seq this) (takeWhile (\<lambda>c. c \<noteq> CHR ''.'') srvname))),
          mdns_call
            (on_discovery_removal srvname
               (fst (create_port (seq this) (takeWhile (\<lambda>c. c \<noteq> CHR ''.'') srvname))))
            (this\<lparr>seq := snd (create_port (seq this) (takeWhile (\<lambda>c. c \<noteq> CHR ''.'') srvname)),
                  known_clients :=
                    AList.update (fst (create_port (seq this) (takeWhile (\<lambda>c. c \<noteq> CHR ''.'') srvname)))
                      \<lparr>client_name = takeWhile (\<lambda>c. c \<noteq> CHR ''.'') srvname,
                       client_address = dotted_quad ip0 ip1 ip2 ip3, client_port = port,
                       use_count = 0, peer = None\<rparr>
                      (known_clients this)\<rparr>))"
  using assms by (simp add: on_a_response_def add_rtpmidi_client_new Let_def)

text \<open>
  With one A query pending for the host, a resolved A record runs \<open>on_a_response\<close>
  once, with the service name and port of that query.
\<close>

lemma resolved_a_single_query:
  assumes "queries d = [(hostname, mdns_A, srvname, port)]"
  shows "resolved create_port (service_a hostname ttl ip0 ip1 ip2 ip3) d
       = d\<lparr>daemon := snd (on_a_response create_port srvname port ip0 ip1 ip2 ip3 (daemon d))\<rparr>"
  using assms by (simp add: resolved_def)

text \<open>An AAAA record leaves the state as it was, whatever queries are pending.\<close>

lemma fold_unchanged:
  assumes "\<And>x s. f x s = s"
  shows "fold f xs s = s"
  by (induction xs) (simp_all add: assms)

lemma resolved_aaaa:
  "resolved create_port (service_aaaa label ttl ip) d = d"
  unfolding resolved_def by (rule fold_unchanged) (simp split: prod.splits)

text \<open>
  Two responses on a daemon that knows 192.168.1.5:5004: the same address and port again,
  and a new address.
\<close>

lemma on_a_response_duplicate_example:
  "on_a_response (\<lambda>s nm. (129, Suc s)) ''piano._apple-midi._udp.local'' 5004 192 168 1 5
      \<lparr>seq = 0, mdns = \<lparr>local_name = ''studio-pc.local'', calls = []\<rparr>,
         known_clients = [(128, \<lparr>client_name = ''piano'', client_address = ''192.168.1.5'',
                                  client_port = 5004, use_count = 0, peer = None\<rparr>)]\<rparr>
     = (None, \<lparr>seq = 0, mdns = \<lparr>local_name = ''studio-pc.local'', calls = []\<rparr>,
         known_clients = [(128, \<lparr>client_name = ''piano'', client_address = ''192.168.1.5'',
                                  client_port = 5004, use_count = 0, peer = None\<rparr>)]\<rparr>)"
  by (simp add: on_a_response_def add_rtpmidi_client_def known_def dotted_quad_def format_nat.simps digit_def)

lemma on_a_response_new_example:
  "on_a_response (\<lambda>s nm. (129, Suc s)) ''organ._apple-midi._udp.local'' 5004 192 168 1 6
      \<lparr>seq = 0, mdns = \<lparr>local_name = ''studio-pc.local'', calls = []\<rparr>,
         known_clients = [(128, \<lparr>client_name = ''piano'', client_address = ''192.168.1.5'',
                                  client_port = 5004, use_count = 0, peer = None\<rparr>)]\<rparr>
     = (Some 129, \<lparr>seq = 1,
         mdns = \<lparr>local_name = ''studio-pc.local'',
                 calls = [on_discovery_removal ''organ._apple-midi._udp.local'' 129]\<rparr>,
         known_clients = [(128, \<lparr>client_name = ''piano'', client_address = ''192.168.1.5'',
                                  client_port = 5004, use_count = 0, peer = None\<rparr>),
                          (129, \<lparr>client_name = ''organ'', client_address = ''192.168.1.6'',
                                  client_port = 5004, use_count = 0, peer = None\<rparr>)]\<rparr>)"
  by (simp add: on_a_response_def add_rtpmidi_client_def known_def mdns_call_def dotted_quad_def format_nat.simps digit_def)


lemma on_subscribe_again:
  assumes "map_of (known_clients this) aseq_port = Some info" and "peer info \<noteq> None"
  shows "on_subscribe aseq_port nm this = this"
  using assms by (simp add: on_subscribe_def known_clients_at_def update_triv)

text \<open>
  Once a port has a session, further subscriptions change nothing; so after any number
  of subscriptions to a fresh client the first unsubscription ends the session.
\<close>

lemma subscribed_again:
  assumes "map_of (known_clients this) aseq_port = Some info" and "peer info \<noteq> None"
  shows "fold (deliver aseq_port) (map Subscribe names) this = this"
  using assms by (induction names) (simp_all add: on_subscribe_again)

lemma first_unsubscribe_ends_session:
  assumes "map_of (known_clients this) aseq_port = Some info"
    and "peer info = None" and "use_count info = 0"
  shows "session (deliver_all aseq_port (map Subscribe (nm # names) @ [Unsubscribe]) this) aseq_port = None"
proof -
  let ?client = "\<lparr>rtpclient_name = nm, rtpclient_address = client_address info,
                  rtpclient_port = client_port info\<rparr>"
  let ?info1 = "info\<lparr>peer := Some ?client, use_count := 1\<rparr>"
  let ?this1 = "on_subscribe aseq_port nm this"
  have this1: "map_of (known_clients ?this1) aseq_port = Some ?info1"
    using assms by (simp add: on_subscribe_def known_clients_at_def update_conv')
  have "fold (deliver aseq_port) (map Subscribe names) ?this1 = ?this1"
    using this1 by (rule subscribed_again) simp
  then have "deliver_all aseq_port (map Subscribe (nm # names) @ [Unsubscribe]) this
      = on_unsubscribe aseq_port ?this1"
    by (simp add: deliver_all_def)
  then show ?thesis
    using this1 by (simp add: session_def on_unsubscribe_def known_clients_at_def update_conv')
qed


lemma srv_hostname_constant:
  "calls (mdns (announce_rtpmidid_server nm port this))
     = calls (mdns this)
       @ [announce (service_ptr ''_apple-midi._udp.local'' 4500 (nm @ ''._apple-midi._udp.local'')) True,
          announce (service_srv (nm @ ''._apple-midi._udp.local'') 4500 ''ucube.local'' port) True]"
  by (simp add: announce_rtpmidid_server_def mdns_call_def TIMEOUT_REANNOUNCE_def)

section \<open>Claims about the daemon\<close>

text \<open>
  C6 (the code departs from the claim). The claim: with k subscriptions and j < k
  unsubscriptions the outbound session stays up, and only the last unsubscription ends
  it. A discovered client on sequencer port 128 gets two subscribers. The first
  subscription creates the session and counts it; the second finds the session and
  counts nothing, so \<open>use_count\<close> is 1 with two subscribers. The first unsubscription
  then takes the count to 0 and destroys the session while one subscriber is left.
\<close>

theorem second_subscriber_not_counted:
  "session (deliver_all 128 [Subscribe ''synth'', Subscribe ''recorder'']
      \<lparr>seq = (), mdns = \<lparr>local_name = ''studio-pc.local'', calls = []\<rparr>,
         known_clients = [(128, \<lparr>client_name = ''piano'', client_address = ''192.168.1.5'',
                                  client_port = 5004, use_count = 0, peer = None\<rparr>)]\<rparr>) 128
     = Some \<lparr>rtpclient_name = ''synth'', rtpclient_address = ''192.168.1.5'', rtpclient_port = 5004\<rparr>
   \<and> use_count (known_clients_at (known_clients (deliver_all 128 [Subscribe ''synth'', Subscribe ''recorder'']
      \<lparr>seq = (), mdns = \<lparr>local_name = ''studio-pc.local'', calls = []\<rparr>,
         known_clients = [(128, \<lparr>client_name = ''piano'', client_address = ''192.168.1.5'',
                                  client_port = 5004, use_count = 0, peer = None\<rparr>)]\<rparr>)) 128) = 1
   \<and> session (deliver_all 128 [Subscribe ''synth'', Subscribe ''recorder'', Unsubscribe]
      \<lparr>seq = (), mdns = \<lparr>local_name = ''studio-pc.local'', calls = []\<rparr>,
         known_clients = [(128, \<lparr>client_name = ''piano'', client_address = ''192.168.1.5'',
                                  client_port = 5004, use_count = 0, peer = None\<rparr>)]\<rparr>) 128
     = None"
  by (simp add: deliver_all_def session_def on_subscribe_def on_unsubscribe_def known_clients_at_def)

text \<open>
  C8 (counterexample). The claim: every resolved A or AAAA response adds a new network
  client unless a known client has the same address and port. A daemon without clients
  discovers the service \<open>organ\<close> on host \<open>organ.local\<close>, port 5004, and queries the
  host's A record. The host's AAAA record then resolves: no client is known, and none
  is added. The host's A record adds the client.
\<close>

theorem aaaa_response_adds_no_client:
  "resolved (\<lambda>s nm. (129, Suc s))
      (service_aaaa ''organ.local'' 120 [0xFE, 0x80, 0, 0, 0, 0, 0, 0, 0, 0, 0, 0, 0, 0, 0, 1])
      (on_srv_discovery (service_srv ''organ._apple-midi._udp.local'' 120 ''organ.local'' 5004)
         \<lparr>daemon = \<lparr>seq = 0, mdns = \<lparr>local_name = ''studio-pc.local'', calls = []\<rparr>,
                      known_clients = []\<rparr>,
            known_mdns_peers = [], queries = []\<rparr>)
     = \<lparr>daemon = \<lparr>seq = 0, mdns = \<lparr>local_name = ''studio-pc.local'', calls = []\<rparr>,
                   known_clients = []\<rparr>,
         known_mdns_peers = [''organ._apple-midi._udp.local''],
         queries = [(''organ.local'', mdns_A, ''organ._apple-midi._udp.local'', 5004)]\<rparr>
   \<and> known_clients (daemon (resolved (\<lambda>s nm. (129, Suc s))
      (service_a ''organ.local'' 120 192 168 1 6)
      (on_srv_discovery (service_srv ''organ._apple-midi._udp.local'' 120 ''organ.local'' 5004)
         \<lparr>daemon = \<lparr>seq = 0, mdns = \<lparr>local_name = ''studio-pc.local'', calls = []\<rparr>,
                      known_clients = []\<rparr>,
            known_mdns_peers = [], queries = []\<rparr>)))
     = [(129, \<lparr>client_name = ''organ'', client_address = ''192.168.1.6'', client_port = 5004,
               use_count = 0, peer = None\<rparr>)]"
  by (simp add: resolved_def on_srv_discovery_def on_a_response_def add_rtpmidi_client_def
      known_def mdns_call_def dotted_quad_def format_nat.simps digit_def)

text \<open>
  C8 (amended). For every resolved A response, handled by the callback of the A query:
  when a known client already has the response's address and the service's port, the
  callback adds nothing, and \<open>add_rtpmidi_client\<close> returns no port and leaves the daemon
  as it was, known clients and sequencer included. When no known client has them, the
  callback returns a newly created sequencer port and records under it a client with the
  service's name, the address and the port, no subscriber and no session; the entries of
  all other ports are kept.
\<close>

theorem a_response_adds_client_unless_known:
  "((\<exists>k info. (k, info) \<in> set (known_clients this)
        \<and> client_address info = dotted_quad ipa ipb ipc ipd \<and> client_port info = port)
      \<longrightarrow> on_a_response create_port srvname port ipa ipb ipc ipd this = (None, this)
        \<and> add_rtpmidi_client create_port n (dotted_quad ipa ipb ipc ipd) port this = (None, this))
 \<and> ((\<forall>k info. (k, info) \<in> set (known_clients this)
        \<longrightarrow> \<not> (client_address info = dotted_quad ipa ipb ipc ipd \<and> client_port info = port))
      \<longrightarrow> fst (on_a_response create_port srvname port ipa ipb ipc ipd this)
            = Some (fst (create_port (seq this) (takeWhile (\<lambda>c. c \<noteq> CHR ''.'') srvname)))
        \<and> seq (snd (on_a_response create_port srvname port ipa ipb ipc ipd this))
            = snd (create_port (seq this) (takeWhile (\<lambda>c. c \<noteq> CHR ''.'') srvname))
        \<and> map_of (known_clients (snd (on_a_response create_port srvname port ipa ipb ipc ipd this)))
              (fst (create_port (seq this) (takeWhile (\<lambda>c. c \<noteq> CHR ''.'') srvname)))
            = Some \<lparr>client_name = takeWhile (\<lambda>c. c \<noteq> CHR ''.'') srvname,
                    client_address = dotted_quad ipa ipb ipc ipd, client_port = port,
                    use_count = 0, peer = None\<rparr>
        \<and> (\<forall>k. k \<noteq> fst (create_port (seq this) (takeWhile (\<lambda>c. c \<noteq> CHR ''.'') srvname))
              \<longrightarrow> map_of (known_clients (snd (on_a_response create_port srvname port ipa ipb ipc ipd this))) k
                  = map_of (known_clients this) k))"
proof (intro conjI impI)
  assume "\<exists>k info. (k, info) \<in> set (known_clients this)
        \<and> client_address info = dotted_quad ipa ipb ipc ipd \<and> client_port info = port"
  then have k: "known (dotted_quad ipa ipb ipc ipd) port (known_clients this)"
    by (simp only: known_iff)
  show "on_a_response create_port srvname port ipa ipb ipc ipd this = (None, this)"
    using k by (rule on_a_response_known)
  show "add_rtpmidi_client create_port n (dotted_quad ipa ipb ipc ipd) port this = (None, this)"
    using k by (rule add_rtpmidi_client_known)
next
  assume "\<forall>k info. (k, info) \<in> set (known_clients this)
        \<longrightarrow> \<not> (client_address info = dotted_quad ipa ipb ipc ipd \<and> client_port info = port)"
  then have "\<not> known (dotted_quad ipa ipb ipc ipd) port (known_clients this)"
    by (auto simp: known_iff)
  note new = on_a_response_new [OF this, of create_port srvname]
  show "fst (on_a_response create_port srvname port ipa ipb ipc ipd this)
            = Some (fst (create_port (seq this) (takeWhile (\<lambda>c. c \<noteq> CHR ''.'') srvname)))"
    by (simp add: new)
  show "seq (snd (on_a_response create_port srvname port ipa ipb ipc ipd this))
            = snd (create_port (seq this) (takeWhile (\<lambda>c. c \<noteq> CHR ''.'') srvname))"
    by (simp add: new mdns_call_def)
  show "map_of (known_clients (snd (on_a_response create_port srvname port ipa ipb ipc ipd this)))
              (fst (create_port (seq this) (takeWhile (\<lambda>c. c \<noteq> CHR ''.'') srvname)))
            = Some \<lparr>client_name = takeWhile (\<lambda>c. c \<noteq> CHR ''.'') srvname,
                    client_address = dotted_quad ipa ipb ipc ipd, client_port = port,
                    use_count = 0, peer = None\<rparr>"
    by (simp add: new mdns_call_def map_of_update_same)
  show "\<forall>k. k \<noteq> fst (create_port (seq this) (takeWhile (\<lambda>c. c \<noteq> CHR ''.'') srvname))
              \<longrightarrow> map_of (known_clients (snd (on_a_response create_port srvname port ipa ipb ipc ipd this))) k
                  = map_of (known_clients this) k"
    by (simp add: new mdns_call_def map_of_update_other)
qed

theorem a_response_adds_client_unless_known_witness:
  "on_a_response (\<lambda>s nm. (129, Suc s)) ''piano._apple-midi._udp.local'' 5004 192 168 1 5
      \<lparr>seq = 0, mdns = \<lparr>local_name = ''studio-pc.local'', calls = []\<rparr>,
         known_clients = [(128, \<lparr>client_name = ''piano'', client_address = ''192.168.1.5'',
                                  client_port = 5004, use_count = 0, peer = None\<rparr>)]\<rparr>
     = (None, \<lparr>seq = 0, mdns = \<lparr>local_name = ''studio-pc.local'', calls = []\<rparr>,
         known_clients = [(128, \<lparr>client_name = ''piano'', client_address = ''192.168.1.5'',
                                  client_port = 5004, use_count = 0, peer = None\<rparr>)]\<rparr>)
   \<and> fst (on_a_response (\<lambda>s nm. (129, Suc s)) ''organ._apple-midi._udp.local'' 5004 192 168 1 6
      \<lparr>seq = 0, mdns = \<lparr>local_name = ''studio-pc.local'', calls = []\<rparr>,
         known_clients = [(128, \<lparr>client_name = ''piano'', client_address = ''192.168.1.5'',
                                  client_port = 5004, use_count = 0, peer = None\<rparr>)]\<rparr>) = Some 129
   \<and> map_of (known_clients (snd (on_a_response (\<lambda>s nm. (129, Suc s)) ''organ._apple-midi._udp.local'' 5004 192 168 1 6
      \<lparr>seq = 0, mdns = \<lparr>local_name = ''studio-pc.local'', calls = []\<rparr>,
         known_clients = [(128, \<lparr>client_name = ''piano'', client_address = ''192.168.1.5'',
                                  client_port = 5004, use_count = 0, peer = None\<rparr>)]\<rparr>))) 128
     = Some \<lparr>client_name = ''piano'', client_address = ''192.168.1.5'',
             client_port = 5004, use_count = 0, peer = None\<rparr>"
  using a_response_adds_client_unless_known [where this =
      "\<lparr>seq = 0, mdns = \<lparr>local_name = ''studio-pc.local'', calls = []\<rparr>,
         known_clients = [(128, \<lparr>client_name = ''piano'', client_address = ''192.168.1.5'',
                                  client_port = 5004, use_count = 0, peer = None\<rparr>)]\<rparr>"
      and ipa = 192 and ipb = 168 and ipc = 1 and ipd = 5 and port = 5004
      and create_port = "\<lambda>s nm. (129, Suc s)" and srvname = "''piano._apple-midi._udp.local''"
      and n = "''piano''"]
    a_response_adds_client_unless_known [where this =
      "\<lparr>seq = 0, mdns = \<lparr>local_name = ''studio-pc.local'', calls = []\<rparr>,
         known_clients = [(128, \<lparr>client_name = ''piano'', client_address = ''192.168.1.5'',
                                  client_port = 5004, use_count = 0, peer = None\<rparr>)]\<rparr>"
      and ipa = 192 and ipb = 168 and ipc = 1 and ipd = 6 and port = 5004
      and create_port = "\<lambda>s nm. (129, Suc s)" and srvname = "''organ._apple-midi._udp.local''"
      and n = "''organ''"]
  by (simp add: dotted_quad_def format_nat.simps digit_def)

text \<open>
  C9 (the code departs from the claim). The claim: the host name of the announced SRV
  record is the host's primary name, asked from the local responder. On a host that the
  responder knows as \<open>studio-pc.local\<close>, announcing and withdrawing the server
  \<open>studio\<close> on port 5004 both carry the fixed host name \<open>ucube.local\<close>.
\<close>

theorem srv_hostname_is_hardcoded:
  "calls (mdns (announce_rtpmidid_server ''studio'' 5004
      \<lparr>seq = (), mdns = \<lparr>local_name = ''studio-pc.local'', calls = []\<rparr>, known_clients = []\<rparr>))
     = [announce (service_ptr ''_apple-midi._udp.local'' 4500 ''studio._apple-midi._udp.local'') True,
        announce (service_srv ''studio._apple-midi._udp.local'' 4500 ''ucube.local'' 5004) True]
   \<and> calls (mdns (unannounce_rtpmidid_server ''studio'' 5004
      \<lparr>seq = (), mdns = \<lparr>local_name = ''studio-pc.local'', calls = []\<rparr>, known_clients = []\<rparr>))
     = [unannounce (service_ptr ''_apple-midi._udp.local'' 0 ''studio._apple-midi._udp.local''),
        unannounce (service_srv ''studio._apple-midi._udp.local'' 0 ''ucube.local'' 5004)]"
  by (simp add: announce_rtpmidid_server_def unannounce_rtpmidid_server_def mdns_call_def TIMEOUT_REANNOUNCE_def)


section \<open>Facts about the control socket\<close>

lemma is_reply_set_result: "is_reply (set_result [(''id'', ident)] v)"
  by (simp add: is_reply_def json_contains_def json_set_def set_result_def)

lemma is_reply_set_error: "is_reply (set_error [(''id'', ident)] v)"
  by (simp add: is_reply_def json_contains_def json_set_def set_error_def)

lemma peer_command_branch_reply:
  assumes "peer_command_branch env js [(''id'', ident)] digits cmd = Inr reply"
  shows "is_reply reply"
proof (cases "stoi digits")
  case (Inl e)
  with assms show ?thesis
    by (simp add: peer_command_branch_def)
next
  case peer_id: (Inr peer_id)
  show ?thesis
  proof (cases "get_peer_by_id env peer_id")
    case None
    with assms peer_id have "reply = set_error [(''id'', ident)]
        (json_string (''Unknown peer '' @ quoted (format_nat (nat peer_id))))"
      by (simp add: peer_command_branch_def)
    then show ?thesis
      by (simp only: is_reply_set_error)
  next
    case peer: (Some peer_command)
    show ?thesis
    proof (cases "json_at js ''params''")
      case (Inl e)
      with assms peer_id peer show ?thesis
        by (simp add: peer_command_branch_def)
    next
      case params: (Inr params)
      show ?thesis
      proof (cases "peer_command cmd params")
        case (Inl e)
        with assms peer_id peer params show ?thesis
          by (simp add: peer_command_branch_def)
      next
        case res: (Inr res)
        show ?thesis
        proof (cases "json_contains res ''error''")
          case False
          with assms peer_id peer params res have "reply = set_result [(''id'', ident)] res"
            by (simp add: peer_command_branch_def)
          then show ?thesis
            by (simp only: is_reply_set_result)
        next
          case True
          show ?thesis
          proof (cases "json_at res ''error''")
            case (Inl e)
            with assms peer_id peer params res True show ?thesis
              by (simp add: peer_command_branch_def)
          next
            case (Inr err)
            with assms peer_id peer params res True have "reply = set_error [(''id'', ident)] err"
              by (simp add: peer_command_branch_def)
            then show ?thesis
              by (simp only: is_reply_set_error)
          qed
        qed
      qed
    qed
  qed
qed


lemma try_block_reply:
  assumes "try_block env js method [(''id'', ident)] = Inr reply"
  shows "is_reply reply"
proof (cases "find (\<lambda>cmd. fst cmd = method) (commands env)")
  case (Some cmd)
  show ?thesis
  proof (cases "json_at js ''params''")
    case (Inl e)
    with assms(1) Some show ?thesis
      by (simp add: try_block_def)
  next
    case params: (Inr params)
    show ?thesis
    proof (cases "snd cmd params")
      case (Inl e)
      with assms(1) Some params show ?thesis
        by (simp add: try_block_def)
    next
      case (Inr res)
      with assms(1) Some params have "reply = set_result [(''id'', ident)] res"
        by (simp add: try_block_def)
      then show ?thesis
        by (simp only: is_reply_set_result)
    qed
  qed
next
  case None
  show ?thesis
  proof (cases "regex_match_peer_command method")
    case no_match: None
    with assms(1) None
    have "reply = set_error [(''id'', ident)] (json_string (''Unknown method '' @ quoted method))"
      by (simp add: try_block_def)
    then show ?thesis
      by (simp only: is_reply_set_error)
  next
    case (Some m)
    obtain digits cmd where m: "m = (digits, cmd)"
      by (cases m) auto
    with assms(1) None Some
    have "peer_command_branch env js [(''id'', ident)] digits cmd = Inr reply"
      by (simp add: try_block_def)
    then show ?thesis
      by (rule peer_command_branch_reply)
  qed
qed

text \<open>
  Once the line has parsed and its method is a string, every path of \<open>parse_command\<close>
  ends in a reply: whatever the \<open>try\<close> block raises is caught.
\<close>

lemma parse_command_inside_try:
  assumes "parse env command = Inr js" and "json_at js ''method'' = Inr (json_string method)"
  shows "\<exists>reply. parse_command env command = Inr reply \<and> is_reply reply"
proof -
  obtain ident where ident: "json_at js ''id'' = Inr ident"
    using assms(2) by (auto simp: json_at_def split: json_t.splits)
  show ?thesis
  proof (cases "try_block env js method [(''id'', ident)]")
    case (Inl e)
    then show ?thesis
      using assms ident by (simp add: parse_command_def json_get_string_def is_reply_set_error)
  next
    case (Inr reply)
    then show ?thesis
      using assms ident try_block_reply [OF Inr] by (simp add: parse_command_def json_get_string_def)
  qed
qed

lemma parse_error_escapes:
  "parse env command = Inl e \<Longrightarrow> parse_command env command = Inl e"
  by (simp add: parse_command_def)

lemma oversize_not_closed:
  assumes "1023 \<le> recv_ret" and "recv_ret \<le> 1024" and "0 \<le> write_ret fd MSG_TOO_LONG"
  shows "data_ready env trim_copy write_ret fd recv_ret buf this
       = Returned this [sys_write fd MSG_TOO_LONG]"
proof -
  have "recv_ret = 1023 \<or> recv_ret = 1024"
    using assms(1,2) by arith
  then show ?thesis
    using assms(3) by (auto simp: data_ready_def)
qed

section \<open>Claims about the control socket\<close>

text \<open>
  C4 (the code departs from the claim). The claim: for every input line, also one that
  is not valid JSON or has no string method, \<open>parse_command\<close> returns a reply with a
  result or an error, and no exception leaves it. The line \<open>{"id": 1}\<close> parses to an
  object without a method: converting the missing method to a string raises a type
  error before the \<open>try\<close> block is entered, the exception leaves \<open>parse_command\<close>, and
  \<open>data_ready\<close> writes nothing and lets it pass to the poller. A line that the parser
  rejects, such as \<open>status\<close>, leaves \<open>parse_command\<close> by the parser's exception.
\<close>

theorem parse_command_exception_escapes:
  \<open>parse_command
      \<lparr>parse = (\<lambda>line. Inr (json_object [(''id'', json_number 1)])), dump = d, what = w,
         commands = cs, get_peer_by_id = g\<rparr>
      ''{"id": 1}''
     = Inl json_type_error
   \<and> data_ready
      \<lparr>parse = (\<lambda>line. Inr (json_object [(''id'', json_number 1)])), dump = d, what = w,
         commands = cs, get_peer_by_id = g\<rparr>
      (\<lambda>s. s) (\<lambda>fd s. int (length s)) 7 9 ''{"id": 1}'' \<lparr>clients = [7]\<rparr>
     = Threw json_type_error []
   \<and> parse_command
      \<lparr>parse = (\<lambda>line. Inl json_parse_error), dump = d, what = w,
         commands = cs, get_peer_by_id = g\<rparr>
      ''status''
     = Inl json_parse_error\<close>
  by (simp add: parse_command_def data_ready_def json_at_def json_get_string_def)


text \<open>
  C5 (the code departs from the claim). The claim: a read that fills the buffer makes
  the server write the "Message too long" close event and close the client's
  connection. A client on descriptor 7 sends 1024 bytes and the write of the close event
  succeeds: the event is the only call made, the descriptor is not closed and the client
  stays registered. The destructor, which sends the other close event, closes the
  descriptor after writing.
\<close>

theorem oversize_message_leaves_connection_open:
  "data_ready env trim_copy (\<lambda>fd s. int (length s)) 7 1024 (replicate 1024 (CHR ''a'')) \<lparr>clients = [7]\<rparr>
     = Returned \<lparr>clients = [7]\<rparr> [sys_write 7 MSG_TOO_LONG]
   \<and> destructor \<lparr>clients = [7]\<rparr> = [listener_stop 7, sys_write 7 MSG_CLOSE_CONN, sys_close 7]"
  by (simp add: data_ready_def destructor_def)

end
